theory Spec2Isabelle
  imports Complex_Main
begin

section \<open>Go values held in an unstructured object\<close>

text \<open>
  \<^verbatim>\<open>unstructured.Unstructured\<close> wraps \<^verbatim>\<open>Object map[string]interface{}\<close>. A value of
  type \<^verbatim>\<open>interface{}\<close> is one of the dynamic types below: the first six are what a
  JSON or YAML decoder produces, the last one is the concrete Go type
  \<^verbatim>\<open>[]v1.Condition\<close> that \<^verbatim>\<open>isRayClusterReady\<close> asserts on.
\<close>

datatype condition = Condition (cond_type: string) (cond_status: string)

datatype iface =
    INil
  | IString string
  | IBool bool
  | INumber int
  | IMap "(string \<times> iface) list"
  | ISlice "iface list"
  | IConditions "condition list"

type_synonym gomap = "(string \<times> iface) list"

type_synonym unstructured = gomap

text \<open>\<^verbatim>\<open>m[k]\<close>: the zero value (a nil interface) when the key is absent.\<close>

definition map_index :: "gomap \<Rightarrow> string \<Rightarrow> iface" where
  "map_index m k = (case map_of m k of None \<Rightarrow> INil | Some v \<Rightarrow> v)"

text \<open>\<^verbatim>\<open>v, ok := m[k]\<close>.\<close>

definition map_index_ok :: "gomap \<Rightarrow> string \<Rightarrow> iface \<times> bool" where
  "map_index_ok m k = (case map_of m k of None \<Rightarrow> (INil, False) | Some v \<Rightarrow> (v, True))"

text \<open>\<^verbatim>\<open>m[k] = v\<close> on a Go map.\<close>

fun map_assign :: "gomap \<Rightarrow> string \<Rightarrow> iface \<Rightarrow> gomap" where
  "map_assign [] k v = [(k, v)]"
| "map_assign ((k', v') # m) k v =
     (if k' = k then (k, v) # m else (k', v') # map_assign m k v)"

section \<open>Failures: returned errors and panics\<close>

type_synonym cause = string

datatype shlex_error = EOFInQuote | EOFAfterEscape | UnknownTokenType

datatype error =
    RawConfigError cause
  | NoCurrentContext
  | RuntimeEnvNotExist cause
  | RuntimeEnvStatError cause
  | RuntimeEnvNotRegular
  | RuntimeEnvCheckError cause
  | RayJobFileNotExist cause
  | RayJobFileStatError cause
  | RayJobFileNotRegular
  | DecodeRayJobError cause
  | SubmissionModeNotSet
  | SubmissionModeNotSupported
  | SubmissionModeNull
  | RuntimeEnvToJsonError cause
  | WorkingDirRequired
  | ClientInitError cause
  | CreateRayJobError cause
  | GetRayJobStatusError
  | NoClusterStatus
  | NoClusterName
  | UnknownCluster
  | GetClusterError cause
  | CannotDetermineClusterState
  | CleanUpError cause
  | ClusterTimeout
  | SvcNameError cause
  | ProbeRequestError cause
  | PortForwardTimeout
  | SubmitCmdError shlex_error
  | StdoutPipeError cause
  | StderrPipeError cause
  | GetLatestRayJobError
  | UpdateRayJobError cause
  | SubmitWaitError cause
  | ClusterNotReady error
  | PortForwardWaitError cause

datatype panic = InterfaceConversion | NilPointerDereference | SliceBoundsOutOfRange

datatype failure = Returned error | Panicked panic

section \<open>isRayClusterReady\<close>

text \<open>
  \<^verbatim>\<open>meta.IsStatusConditionTrue\<close> (k8s.io/apimachinery): the first condition of the given
  type decides; no such condition gives false.
\<close>

definition IsStatusConditionTrue :: "condition list \<Rightarrow> string \<Rightarrow> bool" where
  "IsStatusConditionTrue conditions conditionType =
     (case find (\<lambda>c. cond_type c = conditionType) conditions of
        None \<Rightarrow> False
      | Some c \<Rightarrow> cond_status c = ''True'')"

text \<open>
  Lines 535-552. The assertion \<^verbatim>\<open>rayCluster.Object["status"].(map[string]interface{})\<close>
  is the one-value form, so anything but a map there panics; the assertions to
  \<^verbatim>\<open>[]v1.Condition\<close> and to \<^verbatim>\<open>string\<close> are the two-value form.
\<close>

definition isRayClusterReady :: "unstructured \<Rightarrow> failure + (bool \<times> error option)" where
  "isRayClusterReady rayCluster =
     (case map_index rayCluster ''status'' of
        IMap status \<Rightarrow>
          (let isReady0 = (case map_index status ''conditions'' of
                             IConditions rayClusterConditions \<Rightarrow>
                               IsStatusConditionTrue rayClusterConditions ''Ready''
                           | _ \<Rightarrow> False);
               isReady = (case map_index status ''state'' of
                            IString rayClusterState \<Rightarrow> isReady0 \<or> rayClusterState = ''ready''
                          | _ \<Rightarrow> isReady0)
           in if isReady then Inr (isReady, None)
              else Inr (False, Some CannotDetermineClusterState))
      | _ \<Rightarrow> Inl (Panicked InterfaceConversion))"

section \<open>The options of the submit command\<close>

text \<open>
  \<^verbatim>\<open>float32\<close> flag values: a finite value (as the rational it denotes), the infinities
  and NaN, all of which \<^verbatim>\<open>strconv.ParseFloat\<close> accepts. Only the comparison with zero
  is computed here; formatting with \<^verbatim>\<open>%f\<close> is a parameter of the command builder.
\<close>

datatype float32 = Finite rat | PosInf | NegInf | NaN

fun float32_gt_zero :: "float32 \<Rightarrow> bool" where
  "float32_gt_zero (Finite q) = (0 < q)"
| "float32_gt_zero PosInf = True"
| "float32_gt_zero NegInf = False"
| "float32_gt_zero NaN = False"

text \<open>
  Lines 42-63. \<open>namespace\<close> stands for \<^verbatim>\<open>*configFlags.Namespace\<close>; \<open>RayJob\<close> is a
  pointer, nil until Validate decodes the file.
\<close>

record SubmitJobOptions =
  namespace :: string
  RayJob :: "unstructured option"
  submissionID :: string
  entryPoint :: string
  fileName :: string
  workingDir :: string
  runtimeEnv :: string
  headers :: string
  verify :: string
  cluster :: string
  runtimeEnvJson :: string
  entryPointResource :: string
  metadataJson :: string
  logStyle :: string
  logColor :: string
  entryPointCPU :: float32
  entryPointGPU :: float32
  entryPointMemory :: int
  noWait :: bool

definition dashboardAddr :: string where
  "dashboardAddr = ''http://localhost:8265''"

section \<open>github.com/google/shlex\<close>

text \<open>
  The tokenizer that \<^verbatim>\<open>raySubmitCmd\<close> calls, as the state machine of the library's
  \<^verbatim>\<open>scanStream\<close>: one rune is read per step and classified; end of input is a class
  of its own. All classified runes are ASCII, so the machine is run on bytes.
\<close>

definition squote :: char where "squote = CHR 0x27"
definition dquote :: char where "dquote = CHR 0x22"
definition backslash :: char where "backslash = CHR 0x5C"
definition newline :: char where "newline = CHR 0x0A"

definition spaceRune :: "char \<Rightarrow> bool" where
  "spaceRune c = (c = CHR '' '' \<or> c = CHR 0x09 \<or> c = CHR 0x0D \<or> c = CHR 0x0A)"

datatype lexerState =
    startState | inWordState | escapingState | escapingQuotedState
  | quotingEscapingState | quotingState | commentState

datatype tokenType = UnknownToken | WordToken | SpaceToken | CommentToken

datatype scan_result = ScanEOF | ScanError shlex_error | ScanToken tokenType string

fun scanStream ::
  "lexerState \<Rightarrow> tokenType \<Rightarrow> string \<Rightarrow> string \<Rightarrow> scan_result \<times> string" where
  "scanStream startState tt v [] = (ScanEOF, [])"
| "scanStream startState tt v (c # cs) =
     (if spaceRune c then scanStream startState tt v cs
      else if c = dquote then scanStream quotingEscapingState WordToken v cs
      else if c = squote then scanStream quotingState WordToken v cs
      else if c = backslash then scanStream escapingState WordToken v cs
      else if c = CHR ''#'' then scanStream commentState CommentToken v cs
      else scanStream inWordState WordToken (v @ [c]) cs)"
| "scanStream inWordState tt v [] = (ScanToken tt v, [])"
| "scanStream inWordState tt v (c # cs) =
     (if spaceRune c then (ScanToken tt v, cs)
      else if c = dquote then scanStream quotingEscapingState tt v cs
      else if c = squote then scanStream quotingState tt v cs
      else if c = backslash then scanStream escapingState tt v cs
      else scanStream inWordState tt (v @ [c]) cs)"
| "scanStream escapingState tt v [] = (ScanError EOFAfterEscape, [])"
| "scanStream escapingState tt v (c # cs) = scanStream inWordState tt (v @ [c]) cs"
| "scanStream escapingQuotedState tt v [] = (ScanError EOFAfterEscape, [])"
| "scanStream escapingQuotedState tt v (c # cs) =
     scanStream quotingEscapingState tt (v @ [c]) cs"
| "scanStream quotingEscapingState tt v [] = (ScanError EOFInQuote, [])"
| "scanStream quotingEscapingState tt v (c # cs) =
     (if c = dquote then scanStream inWordState tt v cs
      else if c = backslash then scanStream escapingQuotedState tt v cs
      else scanStream quotingEscapingState tt (v @ [c]) cs)"
| "scanStream quotingState tt v [] = (ScanError EOFInQuote, [])"
| "scanStream quotingState tt v (c # cs) =
     (if c = squote then scanStream inWordState tt v cs
      else scanStream quotingState tt (v @ [c]) cs)"
| "scanStream commentState tt v [] = (ScanToken tt v, [])"
| "scanStream commentState tt v (c # cs) =
     (if spaceRune c \<and> c = newline then (ScanToken tt v, cs)
      else scanStream commentState tt (v @ [c]) cs)"

lemma scanStream_rest_le: "length (snd (scanStream st tt v inp)) \<le> length inp"
  by (induction st tt v inp rule: scanStream.induct) (auto intro: le_SucI)

lemma scanStream_token_consumes:
  "fst (scanStream startState tt v inp) = ScanToken tt' w \<Longrightarrow>
   length (snd (scanStream startState tt v inp)) < length inp"
proof (induction inp)
  case Nil
  then show ?case by simp
next
  case (Cons c cs)
  have "length (snd (scanStream st tt'' v' cs)) < Suc (length cs)" for st tt'' v'
    using scanStream_rest_le [of st tt'' v' cs] by simp
  with Cons show ?case
    by (auto split: if_splits)
qed

lemma scanStream_token_rest:
  assumes "(ScanToken tt' w, rest) = scanStream startState tt v inp"
  shows "length rest < length inp"
proof -
  from assms have "fst (scanStream startState tt v inp) = ScanToken tt' w"
    and "snd (scanStream startState tt v inp) = rest"
    by (metis fst_conv, metis snd_conv)
  then show ?thesis
    using scanStream_token_consumes [of tt v inp tt' w] by simp
qed

text \<open>
  \<^verbatim>\<open>shlex.Split\<close>: the loop over \<^verbatim>\<open>Lexer.Next\<close>, which returns the next word, skips a
  comment token and fails on any other token type; end of input ends the loop with
  the words read so far, any other error as that error.
\<close>

function Split_loop :: "string \<Rightarrow> string list \<Rightarrow> shlex_error + string list" where
  "Split_loop inp subStrings =
     (case scanStream startState UnknownToken [] inp of
        (ScanEOF, rest) \<Rightarrow> Inr subStrings
      | (ScanError e, rest) \<Rightarrow> Inl e
      | (ScanToken tt word, rest) \<Rightarrow>
          (if tt = WordToken then Split_loop rest (subStrings @ [word])
           else if tt = CommentToken then Split_loop rest subStrings
           else Inl UnknownTokenType))"
  by pat_completeness auto
termination
  by (relation "measure (\<lambda>(inp, subStrings). length inp)")
     (auto dest: scanStream_token_rest)

definition shlex_Split :: "string \<Rightarrow> shlex_error + string list" where
  "shlex_Split s = Split_loop s []"

section \<open>raySubmitCmd\<close>

text \<open>\<^verbatim>\<open>fmt.Sprintf("%d", n)\<close> for a Go \<^verbatim>\<open>int\<close>.\<close>

function nat_to_dec :: "nat \<Rightarrow> string" where
  "nat_to_dec n =
     (if n < 10 then [char_of (48 + n)]
      else nat_to_dec (n div 10) @ [char_of (48 + n mod 10)])"
  by pat_completeness auto
termination
  by (relation "measure id") auto

definition Sprintf_d :: "int \<Rightarrow> string" where
  "Sprintf_d i = (if i < 0 then CHR ''-'' # nat_to_dec (nat (- i)) else nat_to_dec (nat i))"

text \<open>
  Lines 441-495. The method has a pointer receiver, so the options are passed in and
  returned; \<open>Sprintf_f\<close> is \<^verbatim>\<open>fmt.Sprintf("%f", _)\<close> on a \<^verbatim>\<open>float32\<close>. Each \<^verbatim>\<open>append\<close> of
  the source is one step of the chain.
\<close>

text \<open>\<^verbatim>\<open>if cond { raySubmitCmd = append(raySubmitCmd, args...) }\<close>\<close>

definition append_when :: "bool \<Rightarrow> string list \<Rightarrow> string list \<Rightarrow> string list" where
  "append_when cond args cmd = (if cond then cmd @ args else cmd)"

definition raySubmitCmd ::
  "(float32 \<Rightarrow> string) \<Rightarrow> SubmitJobOptions \<Rightarrow> (shlex_error + string list) \<times> SubmitJobOptions" where
  "raySubmitCmd Sprintf_f options =
     (let cmd = [''ray'', ''job'', ''submit'', ''--address'', dashboardAddr];
          cmd = append_when (length (runtimeEnv options) > 0)
                  [''--runtime-env'', runtimeEnv options] cmd;
          cmd = append_when (length (runtimeEnvJson options) > 0)
                  [''--runtime-env-json'', runtimeEnvJson options] cmd;
          cmd = append_when (length (submissionID options) > 0)
                  [''--submission-id'', submissionID options] cmd;
          cmd = append_when (float32_gt_zero (entryPointCPU options))
                  [''--entrypoint-num-cpus'', Sprintf_f (entryPointCPU options)] cmd;
          cmd = append_when (float32_gt_zero (entryPointGPU options))
                  [''--entrypoint-num-gpus'', Sprintf_f (entryPointGPU options)] cmd;
          cmd = append_when (entryPointMemory options > 0)
                  [''--entrypoint-memory'', Sprintf_d (entryPointMemory options)] cmd;
          cmd = append_when (length (entryPointResource options) > 0)
                  [''--entrypoint-resource'', entryPointResource options] cmd;
          cmd = append_when (length (metadataJson options) > 0)
                  [''--metadata-json'', metadataJson options] cmd;
          cmd = append_when (noWait options) [''--no-wait''] cmd;
          cmd = append_when (length (headers options) > 0)
                  [''--headers'', headers options] cmd;
          cmd = append_when (length (verify options) > 0)
                  [''--verify'', verify options] cmd;
          cmd = append_when (length (logStyle options) > 0)
                  [''--log-style'', logStyle options] cmd;
          cmd = append_when (length (logColor options) > 0)
                  [''--log-color'', logColor options] cmd;
          cmd = cmd @ [''--working-dir'', workingDir options];
          cmd = cmd @ [''--'']
      in case shlex_Split (entryPoint options) of
           Inl err \<Rightarrow> (Inl err, options)
         | Inr entryPointSanitized \<Rightarrow> (Inr (cmd @ entryPointSanitized), options))"


section \<open>Complete and Validate\<close>

text \<open>
  What Validate reads from outside the program: the merged kubeconfig (an error or the
  current context), \<^verbatim>\<open>os.Stat\<close>, \<^verbatim>\<open>os.ReadFile\<close>, the YAML decoders and
  \<^verbatim>\<open>filepath.Clean\<close>.
\<close>

datatype file_stat = StatNotExist cause | StatError cause | StatInfo (IsRegular: bool)

record env =
  RawConfig :: "cause + string"
  Stat :: "string \<Rightarrow> file_stat"
  ReadFile :: "string \<Rightarrow> cause + string"
  yaml_Unmarshal :: "string \<Rightarrow> cause + gomap"
  Decode :: "string \<Rightarrow> cause + unstructured"
  YAMLToJSON :: "string \<Rightarrow> cause + string"
  Clean :: "string \<Rightarrow> string"

text \<open>Lines 140-151.\<close>

definition Complete :: "env \<Rightarrow> SubmitJobOptions \<Rightarrow> SubmitJobOptions" where
  "Complete e options =
     (let options = (if namespace options = [] then options\<lparr>namespace := ''default''\<rparr>
                     else options);
          options = (if length (runtimeEnv options) > 0
                     then options\<lparr>runtimeEnv := Clean e (runtimeEnv options)\<rparr> else options)
      in options\<lparr>fileName := Clean e (fileName options)\<rparr>)"

text \<open>
  Lines 515-533. The result is a panic, or what the function returns: an error or the
  working directory. \<^verbatim>\<open>runtimeEnvYaml["working_dir"].(string)\<close> is the one-value
  assertion.
\<close>

definition runtimeEnvHasWorkingDir :: "env \<Rightarrow> string \<Rightarrow> panic + (cause + string)" where
  "runtimeEnvHasWorkingDir e runtimePath =
     (case ReadFile e runtimePath of
        Inl err \<Rightarrow> Inr (Inl err)
      | Inr runtimeEnvFileContent \<Rightarrow>
          (case yaml_Unmarshal e runtimeEnvFileContent of
             Inl err \<Rightarrow> Inr (Inl err)
           | Inr runtimeEnvYaml \<Rightarrow>
               (case map_index runtimeEnvYaml ''working_dir'' of
                  IString workingDir' \<Rightarrow>
                    (if workingDir' \<noteq> [] then Inr (Inr workingDir') else Inr (Inr []))
                | _ \<Rightarrow> Inl InterfaceConversion)))"

text \<open>Lines 498-513.\<close>

definition decodeRayJobYaml :: "env \<Rightarrow> string \<Rightarrow> cause + unstructured" where
  "decodeRayJobYaml e rayJobFilePath =
     (case ReadFile e rayJobFilePath of
        Inl err \<Rightarrow> Inl err
      | Inr rayJobYamlContent \<Rightarrow> Decode e rayJobYamlContent)"

text \<open>Lines 163-180 of Validate: the runtime-env file.\<close>

definition Validate_runtimeEnv :: "env \<Rightarrow> SubmitJobOptions \<Rightarrow> failure + SubmitJobOptions" where
  "Validate_runtimeEnv e options =
     (if length (runtimeEnv options) > 0 then
        (case Stat e (runtimeEnv options) of
           StatNotExist err \<Rightarrow> Inl (Returned (RuntimeEnvNotExist err))
         | StatError err \<Rightarrow> Inl (Returned (RuntimeEnvStatError err))
         | StatInfo regular \<Rightarrow>
             (if \<not> regular then Inl (Returned RuntimeEnvNotRegular)
              else
                (case runtimeEnvHasWorkingDir e (runtimeEnv options) of
                   Inl p \<Rightarrow> Inl (Panicked p)
                 | Inr (Inl err) \<Rightarrow> Inl (Returned (RuntimeEnvCheckError err))
                 | Inr (Inr runtimeEnvWorkingDir) \<Rightarrow>
                     (if length runtimeEnvWorkingDir > 0 \<and> workingDir options = []
                      then Inr (options\<lparr>workingDir := runtimeEnvWorkingDir\<rparr>)
                      else Inr options))))
      else Inr options)"

text \<open>
  Lines 196-223 of Validate: the checks on the decoded RayJob. Both reads of
  \<^verbatim>\<open>Object["spec"]\<close> use the one-value assertion to a map; the second one cannot fail
  once the first has passed.
\<close>

definition Validate_spec :: "env \<Rightarrow> SubmitJobOptions \<Rightarrow> unstructured \<Rightarrow> failure + SubmitJobOptions" where
  "Validate_spec e options rayJob =
     (case map_index rayJob ''spec'' of
        IMap spec \<Rightarrow>
          (case map_index_ok spec ''submissionMode'' of
             (submissionMode, ok) \<Rightarrow>
               if \<not> ok then Inl (Returned SubmissionModeNotSet)
               else if submissionMode = INil then Inl (Returned SubmissionModeNull)
               else if submissionMode \<noteq> IString ''InteractiveMode''
               then Inl (Returned SubmissionModeNotSupported)
               else
                 (case (case map_index spec ''runtimeEnvYAML'' of
                          IString runtimeEnvYaml \<Rightarrow>
                            (if runtimeEnv options = [] \<and> runtimeEnvJson options = [] then
                               (case YAMLToJSON e runtimeEnvYaml of
                                  Inl err \<Rightarrow> Inl (Returned (RuntimeEnvToJsonError err))
                                | Inr runtimeJson \<Rightarrow>
                                    Inr (options\<lparr>runtimeEnvJson := runtimeJson\<rparr>))
                             else Inr options)
                        | _ \<Rightarrow> Inr options) of
                    Inl f \<Rightarrow> Inl f
                  | Inr options \<Rightarrow>
                      (if workingDir options = [] then Inl (Returned WorkingDirRequired)
                       else Inr (options\<lparr>workingDir := Clean e (workingDir options)\<rparr>))))
      | _ \<Rightarrow> Inl (Panicked InterfaceConversion))"

text \<open>Lines 153-224.\<close>

definition Validate :: "env \<Rightarrow> SubmitJobOptions \<Rightarrow> failure + SubmitJobOptions" where
  "Validate e options =
     (case RawConfig e of
        Inl err \<Rightarrow> Inl (Returned (RawConfigError err))
      | Inr currentContext \<Rightarrow>
          (if length currentContext = 0 then Inl (Returned NoCurrentContext)
           else
             (case Validate_runtimeEnv e options of
                Inl f \<Rightarrow> Inl f
              | Inr options \<Rightarrow>
                  (case Stat e (fileName options) of
                     StatNotExist err \<Rightarrow> Inl (Returned (RayJobFileNotExist err))
                   | StatError err \<Rightarrow> Inl (Returned (RayJobFileStatError err))
                   | StatInfo regular \<Rightarrow>
                       (if \<not> regular then Inl (Returned RayJobFileNotRegular)
                        else
                          (case decodeRayJobYaml e (fileName options) of
                             Inl err \<Rightarrow> Inl (Returned (DecodeRayJobError err))
                           | Inr rayJob \<Rightarrow>
                               Validate_spec e (options\<lparr>RayJob := Some rayJob\<rparr>) rayJob))))))"

text \<open>An options value used to evaluate the builder on a concrete input.\<close>

definition example_options :: SubmitJobOptions where
  "example_options =
     \<lparr>namespace = ''default'', RayJob = None, submissionID = [],
      entryPoint = ''python my_script.py'', fileName = ''rayjob.yaml'', workingDir = ''/work'',
      runtimeEnv = [], headers = [], verify = [], cluster = [], runtimeEnvJson = [],
      entryPointResource = [], metadataJson = [], logStyle = [], logColor = [],
      entryPointCPU = Finite 0, entryPointGPU = Finite 0, entryPointMemory = 0,
      noWait = False\<rparr>"

definition example_env :: "gomap \<Rightarrow> unstructured \<Rightarrow> env" where
  "example_env runtimeEnvYaml rayJob =
     \<lparr>RawConfig = Inr ''kind-kind'', Stat = (\<lambda>path. StatInfo True),
      ReadFile = (\<lambda>path. Inr path), yaml_Unmarshal = (\<lambda>content. Inr runtimeEnvYaml),
      Decode = (\<lambda>content. Inr rayJob), YAMLToJSON = (\<lambda>y. Inr y), Clean = (\<lambda>path. path)\<rparr>"

definition example_rayjob :: unstructured where
  "example_rayjob =
     [(''apiVersion'', IString ''ray.io/v1''), (''kind'', IString ''RayJob''),
      (''metadata'', IMap [(''name'', IString ''rayjob-sample'')]),
      (''spec'', IMap [(''submissionMode'', IString ''InteractiveMode'')])]"

section \<open>Accessors of unstructured.Unstructured\<close>

text \<open>
  \<^verbatim>\<open>GetName\<close> is \<^verbatim>\<open>NestedString(Object, "metadata", "name")\<close>: the empty string when
  the path is missing or does not end in a string.
\<close>

definition GetName :: "unstructured \<Rightarrow> string" where
  "GetName u =
     (case map_index u ''metadata'' of
        IMap metadata \<Rightarrow> (case map_index metadata ''name'' of IString n \<Rightarrow> n | _ \<Rightarrow> [])
      | _ \<Rightarrow> [])"

fun is_IString :: "iface \<Rightarrow> bool" where
  "is_IString (IString s) = True"
| "is_IString v = False"

text \<open>
  \<^verbatim>\<open>GetAnnotations\<close> is \<^verbatim>\<open>NestedStringMap(Object, "metadata", "annotations")\<close>: nil
  unless the path ends in a map whose values are all strings.
\<close>

definition GetAnnotations :: "unstructured \<Rightarrow> gomap option" where
  "GetAnnotations u =
     (case map_index u ''metadata'' of
        IMap metadata \<Rightarrow>
          (case map_index metadata ''annotations'' of
             IMap annotations \<Rightarrow>
               (if list_all (\<lambda>kv. is_IString (snd kv)) annotations then Some annotations
                else None)
           | _ \<Rightarrow> None)
      | _ \<Rightarrow> None)"

text \<open>
  \<^verbatim>\<open>SetAnnotations\<close> with a non-nil map is \<^verbatim>\<open>SetNestedStringMap\<close>: a missing
  \<^verbatim>\<open>metadata\<close> is created, one that is not a map makes the call an error, which
  \<^verbatim>\<open>SetAnnotations\<close> drops.
\<close>

definition SetAnnotations :: "unstructured \<Rightarrow> gomap \<Rightarrow> unstructured" where
  "SetAnnotations u annotations =
     (case map_of u ''metadata'' of
        None \<Rightarrow> map_assign u ''metadata'' (IMap [(''annotations'', IMap annotations)])
      | Some (IMap metadata) \<Rightarrow>
          map_assign u ''metadata'' (IMap (map_assign metadata ''annotations'' (IMap annotations)))
      | Some _ \<Rightarrow> u)"

section \<open>The world of Run\<close>

text \<open>
  What Run does to the outside is a list of events; what the outside answers is a
  \<open>world\<close>. Time is \<^verbatim>\<open>time.Duration\<close>, a count of nanoseconds. An iteration of a poll
  loop lasts the two seconds of its \<^verbatim>\<open>time.Sleep\<close> plus a latency the world chooses:
  the time the request takes and any oversleep.
\<close>

datatype event =
    Print string
  | PrintError error
  | Sleep nat
  | CreateRayJob unstructured
  | GetRayJob string
  | GetRayCluster string
  | DeleteRayJob string
  | GetRayHeadSvcName string
  | StartPortForward string
  | CancelPortForward
  | HttpGet string
  | StartCommand "string list"
  | UpdateRayJob unstructured
  | WaitCommand

text \<open>
  \<^verbatim>\<open>httpClient.Do\<close> returns a response pointer and an error: \<open>do_response\<close> is the
  status code of a non-nil response. A transport error comes with a nil response.
\<close>

record http_result =
  do_response :: "int option"
  do_err :: "cause option"

record world =
  NewClient :: "cause option"
  Create :: "unstructured \<Rightarrow> cause + unstructured"
  GetJob :: "nat \<Rightarrow> cause + unstructured"
  GetCluster :: "nat \<Rightarrow> cause + unstructured"
  clusterLatency :: "nat \<Rightarrow> nat"
  Delete :: "cause option"
  HeadSvcName :: "cause + string"
  NewRequest :: "cause option"
  Do :: "nat \<Rightarrow> http_result"
  probeLatency :: "nat \<Rightarrow> nat"
  Sprintf_f32 :: "float32 \<Rightarrow> string"
  StdoutPipe :: "cause option"
  StderrPipe :: "cause option"
  stdoutTokens :: "string list"
  storeSeen :: "nat \<Rightarrow> bool"
  GetLatest :: "cause + unstructured"
  Update :: "unstructured \<Rightarrow> cause option"
  Wait :: "cause option"

definition second :: nat where
  "second = 1000000000"

text \<open>Lines 36-40, as durations.\<close>

definition clusterTimeout :: nat where
  "clusterTimeout = 120 * second"

definition portforwardtimeout :: nat where
  "portforwardtimeout = 60 * second"

section \<open>The poll loops of Run\<close>

text \<open>
  What a poll loop leaves behind: how it ended (a failure that ends Run, or the value
  of its ready flag), how many requests it made, the elapsed time last measured, and
  its events.
\<close>

record poll =
  outcome :: "failure + bool"
  requests :: nat
  elapsed :: nat
  events :: "event list"

text \<open>
  Lines 241-247: the loop that waits for the status of the RayJob. It has no deadline,
  so it may run forever: not returning is the value \<open>None\<close>.
\<close>

partial_function (option) status_loop ::
  "world \<Rightarrow> nat \<Rightarrow> unstructured \<Rightarrow> event list \<Rightarrow> ((failure + unstructured) \<times> event list) option" where
  "status_loop w k rayJob tr =
     (if map_index rayJob ''status'' = INil then
        (case GetJob w k of
           Inl e \<Rightarrow> Some (Inl (Returned GetRayJobStatusError), tr @ [GetRayJob (GetName rayJob)])
         | Inr rayJob' \<Rightarrow>
             status_loop w (Suc k) rayJob' (tr @ [GetRayJob (GetName rayJob), Sleep (2 * second)]))
      else Some (Inr rayJob, tr))"

declare status_loop.simps [code]

text \<open>
  Lines 266-278: the loop runs while the cluster is not ready and the elapsed time last
  measured is at most the timeout. \<open>k\<close> counts the iterations done, \<open>t\<close> is
  \<^verbatim>\<open>currTime.Sub(clusterWaitStartTime)\<close>.
\<close>

function cluster_loop :: "world \<Rightarrow> string \<Rightarrow> nat \<Rightarrow> nat \<Rightarrow> event list \<Rightarrow> poll" where
  "cluster_loop w name k t tr =
     (if t \<le> clusterTimeout then
        (case GetCluster w k of
           Inl e \<Rightarrow>
             \<lparr>outcome = Inl (Returned (GetClusterError e)), requests = Suc k, elapsed = t,
              events = tr @ [Sleep (2 * second), GetRayCluster name]\<rparr>
         | Inr currCluster \<Rightarrow>
             (case isRayClusterReady currCluster of
                Inl f \<Rightarrow>
                  \<lparr>outcome = Inl f, requests = Suc k, elapsed = t,
                   events = tr @ [Sleep (2 * second), GetRayCluster name]\<rparr>
              | Inr (clusterReady, e) \<Rightarrow>
                  (let tr' = tr @ [Sleep (2 * second), GetRayCluster name]
                               @ (case e of None \<Rightarrow> []
                                  | Some e' \<Rightarrow> [PrintError (ClusterNotReady e')]);
                       t' = t + 2 * second + clusterLatency w k
                   in if clusterReady
                      then \<lparr>outcome = Inr True, requests = Suc k, elapsed = t', events = tr'\<rparr>
                      else cluster_loop w name (Suc k) t' tr')))
      else \<lparr>outcome = Inr False, requests = k, elapsed = t, events = tr\<rparr>)"
  by pat_completeness auto
termination
  by (relation "measure (\<lambda>(w, name, k, t, tr). Suc clusterTimeout - t)")
     (auto simp: second_def)

text \<open>
  Lines 323-335: the loop that probes the forwarded port. The status code is read from
  the response whether or not \<^verbatim>\<open>Do\<close> returned an error; with a nil response that is a
  nil pointer dereference.
\<close>

function portforward_loop :: "world \<Rightarrow> nat \<Rightarrow> nat \<Rightarrow> event list \<Rightarrow> poll" where
  "portforward_loop w k t tr =
     (if t \<le> portforwardtimeout then
        (let rayDashboardResponse = Do w k;
             tr' = tr @ [Sleep (2 * second), HttpGet dashboardAddr]
                     @ (case do_err rayDashboardResponse of None \<Rightarrow> []
                        | Some e \<Rightarrow> [PrintError (PortForwardWaitError e)])
         in case do_response rayDashboardResponse of
              None \<Rightarrow>
                \<lparr>outcome = Inl (Panicked NilPointerDereference), requests = Suc k, elapsed = t,
                 events = tr'\<rparr>
            | Some StatusCode \<Rightarrow>
                (let t' = t + 2 * second + probeLatency w k
                 in if 200 \<le> StatusCode \<and> StatusCode < 300
                    then \<lparr>outcome = Inr True, requests = Suc k, elapsed = t', events = tr'\<rparr>
                    else portforward_loop w (Suc k) t' tr'))
      else \<lparr>outcome = Inr False, requests = k, elapsed = t, events = tr\<rparr>)"
  by pat_completeness auto
termination
  by (relation "measure (\<lambda>(w, k, t, tr). Suc portforwardtimeout - t)")
     (auto simp: second_def)

section \<open>The job identifier in the output of the command\<close>

text \<open>\<^verbatim>\<open>strings.Contains\<close>.\<close>

fun Contains :: "string \<Rightarrow> string \<Rightarrow> bool" where
  "Contains [] substr = (substr = [])"
| "Contains (c # s) substr = (take (length substr) (c # s) = substr \<or> Contains s substr)"

text \<open>
  The regular expression of line 381 is a quote, a run of non-quotes that holds
  \<^verbatim>\<open>raysubmit\<close>, and a quote. A match that starts at a quote therefore ends at the next
  quote, and the leftmost match is at the first quote whose run up to the next quote
  holds the marker. \<open>find_quoted\<close> is given the text after a quote and returns the
  submatch.
\<close>

function find_quoted :: "string \<Rightarrow> string option" where
  "find_quoted s =
     (case dropWhile (\<lambda>c. c \<noteq> squote) s of
        [] \<Rightarrow> None
      | q # rest \<Rightarrow>
          (if Contains (takeWhile (\<lambda>c. c \<noteq> squote) s) ''raysubmit''
           then Some (takeWhile (\<lambda>c. c \<noteq> squote) s)
           else find_quoted rest))"
  by pat_completeness auto
termination
proof (relation "measure length")
  show "wf (measure length)" by simp
next
  fix s :: string and q rest
  assume "dropWhile (\<lambda>c. c \<noteq> squote) s = q # rest"
  then have "length (q # rest) \<le> length s"
    using length_dropWhile_le [of "\<lambda>c. c \<noteq> squote" s] by simp
  then show "(rest, s) \<in> measure length" by simp
qed

text \<open>
  \<^verbatim>\<open>regexExp.FindStringSubmatch\<close>: nil when nothing matches, else the match and its one
  submatch.
\<close>

definition FindStringSubmatch :: "string \<Rightarrow> string list" where
  "FindStringSubmatch s =
     (case dropWhile (\<lambda>c. c \<noteq> squote) s of
        [] \<Rightarrow> []
      | q # rest \<Rightarrow>
          (case find_quoted rest of
             None \<Rightarrow> []
           | Some m \<Rightarrow> [squote # m @ [squote], m]))"

text \<open>
  Lines 367-413. The goroutine that scans the output and the main flow share the
  variable \<^verbatim>\<open>rayJobID\<close> and the unbuffered channel. The main flow receives once, if
  \<^verbatim>\<open>rayJobID\<close> is empty when it gets there, and then stores what it received; a send
  completes only while the main flow is receiving, and blocks for ever afterwards.
  When the goroutine sees the store is not fixed by the program: \<open>seen k\<close> says
  whether it is visible at iteration \<open>k\<close> of the scanner.
\<close>

record correlator =
  rayJobID :: string
  pendingStore :: "string option"
  receiving :: bool
  delivered :: "string list"
  sendBlocked :: bool
  echoed :: "string list"

definition initial_correlator :: "SubmitJobOptions \<Rightarrow> correlator" where
  "initial_correlator options =
     \<lparr>rayJobID = submissionID options, pendingStore = None,
      receiving = (submissionID options = []), delivered = [], sendBlocked = False,
      echoed = []\<rparr>"

definition store_seen :: "correlator \<Rightarrow> correlator" where
  "store_seen c =
     (case pendingStore c of
        None \<Rightarrow> c
      | Some v \<Rightarrow> c\<lparr>rayJobID := v, pendingStore := None\<rparr>)"

definition echo :: "string \<Rightarrow> correlator \<Rightarrow> correlator" where
  "echo currStdToken c =
     (if currStdToken \<noteq> [] then c\<lparr>echoed := echoed c @ [currStdToken]\<rparr> else c)"

text \<open>
  Lines 376-396, one iteration per token; the first token is the empty text the
  scanner holds before its first \<^verbatim>\<open>Scan\<close>.
\<close>

fun stdout_scanner :: "(nat \<Rightarrow> bool) \<Rightarrow> nat \<Rightarrow> string list \<Rightarrow> correlator \<Rightarrow> correlator" where
  "stdout_scanner seen k [] c = c"
| "stdout_scanner seen k (currStdToken # tokens) c =
     (let c = (if seen k then store_seen c else c)
      in if currStdToken \<noteq> [] \<and> rayJobID c = [] \<and> Contains currStdToken ''raysubmit''
            \<and> length (FindStringSubmatch currStdToken) > 1
         then
           (if receiving c
            then stdout_scanner seen (Suc k) tokens
                   (echo currStdToken
                      (c\<lparr>delivered := delivered c @ [FindStringSubmatch currStdToken ! 1],
                         receiving := False,
                         pendingStore := Some (FindStringSubmatch currStdToken ! 1)\<rparr>))
            else c\<lparr>sendBlocked := True\<rparr>)
         else stdout_scanner seen (Suc k) tokens (echo currStdToken c))"

definition run_scanner :: "world \<Rightarrow> SubmitJobOptions \<Rightarrow> correlator" where
  "run_scanner w options =
     stdout_scanner (storeSeen w) 0 ([] # stdoutTokens w) (initial_correlator options)"

text \<open>
  Lines 367-370 and 410-413: the identifier the main flow goes on with, \<open>None\<close> when
  it waits for ever on the channel.
\<close>

definition await_rayJobID :: "world \<Rightarrow> SubmitJobOptions \<Rightarrow> string option" where
  "await_rayJobID w options =
     (if submissionID options \<noteq> [] then Some (submissionID options)
      else (case delivered (run_scanner w options) of
              [] \<Rightarrow> None
            | v # vs \<Rightarrow> Some v))"

section \<open>Run\<close>

text \<open>\<^verbatim>\<open>strings.Join\<close>.\<close>

fun Join :: "string list \<Rightarrow> string \<Rightarrow> string" where
  "Join [] sep = []"
| "Join [x] sep = x"
| "Join (x # y # xs) sep = x @ sep @ Join (y # xs) sep"

definition submissionIdAnnotation :: string where
  "submissionIdAnnotation = ''ray.io/ray-job-submission-id''"

text \<open>
  Lines 341-438: build the command, start it, wait for the job identifier, annotate the
  RayJob and wait for the command. The result is \<open>None\<close> when the main flow waits for
  ever on the channel; otherwise it is what Run returns (\<open>None\<close> inside for a nil
  error) and the events of this part. The two goroutines that end the process with
  \<^verbatim>\<open>log.Fatalf\<close> (port forwarding fails, the command fails to start) are left out.
\<close>

definition Run_submit ::
  "world \<Rightarrow> SubmitJobOptions \<Rightarrow> unstructured \<Rightarrow> (failure option \<times> event list) option" where
  "Run_submit w options rayJob =
     (case fst (raySubmitCmd (Sprintf_f32 w) options) of
        Inl e \<Rightarrow> Some (Some (Returned (SubmitCmdError e)), [])
      | Inr cmd \<Rightarrow>
          (let tr = [Print (''Ray command: ['' @ Join cmd '' '' @ '']'')] in
           case StdoutPipe w of
             Some e \<Rightarrow> Some (Some (Returned (StdoutPipeError e)), tr)
           | None \<Rightarrow>
               (case StderrPipe w of
                  Some e \<Rightarrow> Some (Some (Returned (StderrPipeError e)), tr)
                | None \<Rightarrow>
                    (let tr = tr @ [Print ''Running ray submit job command...'', StartCommand cmd] in
                     case await_rayJobID w options of
                       None \<Rightarrow> None
                     | Some jobID \<Rightarrow>
                         (let tr = tr @ [GetRayJob (GetName rayJob)] in
                          case GetLatest w of
                            Inl e \<Rightarrow> Some (Some (Returned GetLatestRayJobError), tr)
                          | Inr latest \<Rightarrow>
                              (let rayJobAnnotations =
                                     (case GetAnnotations latest of None \<Rightarrow> [] | Some a \<Rightarrow> a);
                                   rayJobAnnotations =
                                     map_assign rayJobAnnotations submissionIdAnnotation
                                       (IString jobID);
                                   latest = SetAnnotations latest rayJobAnnotations;
                                   tr = tr @ [UpdateRayJob latest]
                               in case Update w latest of
                                    Some e \<Rightarrow> Some (Some (Returned (UpdateRayJobError e)), tr)
                                  | None \<Rightarrow>
                                      (case Wait w of
                                         Some e \<Rightarrow>
                                           Some (Some (Returned (SubmitWaitError e)),
                                                 tr @ [WaitCommand])
                                       | None \<Rightarrow> Some (None, tr @ [WaitCommand]))))))))"

text \<open>
  Lines 296-339 and on: start the port forwarding, probe it, then submit. The deferred
  \<^verbatim>\<open>cancel()\<close> of line 302 runs when Run returns or panics from here on.
\<close>

definition Run_forwarded ::
  "world \<Rightarrow> SubmitJobOptions \<Rightarrow> unstructured \<Rightarrow> string \<Rightarrow> (failure option \<times> event list) option" where
  "Run_forwarded w options rayJob svcName =
     (let tr = [StartPortForward (''service/'' @ svcName),
                Print (''Port Forwarding service '' @ svcName)] in
      case NewRequest w of
        Some e \<Rightarrow> Some (Some (Returned (ProbeRequestError e)), tr @ [CancelPortForward])
      | None \<Rightarrow>
          (let r = portforward_loop w 0 0 (tr @ [Print ''Waiting for portforwarding...'']) in
           case outcome r of
             Inl f \<Rightarrow> Some (Some f, events r @ [CancelPortForward])
           | Inr portforwardReady \<Rightarrow>
               (if \<not> portforwardReady
                then Some (Some (Returned PortForwardTimeout), events r @ [CancelPortForward])
                else
                  (case Run_submit w options rayJob of
                     None \<Rightarrow> None
                   | Some (res, tr') \<Rightarrow>
                       Some (res, events r
                                    @ [Print (''Portforwarding started on '' @ dashboardAddr)]
                                    @ tr' @ [CancelPortForward])))))"

text \<open>
  Lines 248-294: read the cluster name from the status, wait for the cluster, delete
  the RayJob when the wait ends with the cluster not ready, find the head service.
\<close>

definition Run_cluster ::
  "world \<Rightarrow> SubmitJobOptions \<Rightarrow> unstructured \<Rightarrow> (failure option \<times> event list) option" where
  "Run_cluster w options rayJob =
     (case map_index rayJob ''status'' of
        IMap status \<Rightarrow>
          (case map_index status ''rayClusterName'' of
             IString clusterName \<Rightarrow>
               (if length clusterName = 0 then Some (Some (Returned NoClusterName), [])
                else
                  (let options = options\<lparr>cluster := clusterName\<rparr>;
                       r = cluster_loop w clusterName 0 0
                             [Print ''Waiting for RayCluster'',
                              Print (''Checking Cluster Status for cluster '' @ clusterName
                                     @ ''...'')]
                   in case outcome r of
                        Inl f \<Rightarrow> Some (Some f, events r)
                      | Inr clusterReady \<Rightarrow>
                          (if \<not> clusterReady then
                             (let tr = events r @ [Print ''Deleting RayJob...'',
                                                   DeleteRayJob (GetName rayJob)] in
                              case Delete w of
                                Some e \<Rightarrow> Some (Some (Returned (CleanUpError e)), tr)
                              | None \<Rightarrow>
                                  Some (Some (Returned ClusterTimeout),
                                        tr @ [Print (''Cleaned Up RayJob: '' @ GetName rayJob)]))
                           else
                             (let tr = events r @ [GetRayHeadSvcName clusterName] in
                              case HeadSvcName w of
                                Inl e \<Rightarrow> Some (Some (Returned (SvcNameError e)), tr)
                              | Inr svcName \<Rightarrow>
                                  (case Run_forwarded w options rayJob svcName of
                                     None \<Rightarrow> None
                                   | Some (res, tr') \<Rightarrow> Some (res, tr @ tr'))))))
           | _ \<Rightarrow> Some (Some (Returned NoClusterStatus), []))
      | _ \<Rightarrow> Some (Some (Panicked InterfaceConversion), []))"

text \<open>
  Lines 226-439. \<open>None\<close> is a run that does not return: the wait for the status never
  ends, or the main flow waits for ever for the job identifier.
\<close>

definition Run :: "world \<Rightarrow> SubmitJobOptions \<Rightarrow> (failure option \<times> event list) option" where
  "Run w options =
     (case NewClient w of
        Some e \<Rightarrow> Some (Some (Returned (ClientInitError e)), [])
      | None \<Rightarrow>
          (case RayJob options of
             None \<Rightarrow> Some (Some (Panicked NilPointerDereference), [])
           | Some job \<Rightarrow>
               (case Create w job of
                  Inl e \<Rightarrow> Some (Some (Returned (CreateRayJobError e)), [CreateRayJob job])
                | Inr created \<Rightarrow>
                    (let tr = [CreateRayJob job,
                               Print (''Submitted RayJob '' @ GetName created @ ''.'')] in
                     if length (GetName created) > 0 then
                       (case status_loop w 0 created tr of
                          None \<Rightarrow> None
                        | Some (Inl f, tr) \<Rightarrow> Some (Some f, tr)
                        | Some (Inr rayJob, tr) \<Rightarrow>
                            (case Run_cluster w (options\<lparr>RayJob := Some rayJob\<rparr>) rayJob of
                               None \<Rightarrow> None
                             | Some (res, tr') \<Rightarrow> Some (res, tr @ tr')))
                     else Some (Some (Returned UnknownCluster), tr)))))"

text \<open>
  Lines 105-115, the command's \<^verbatim>\<open>RunE\<close>: \<open>entryPointStart\<close> is
  \<^verbatim>\<open>cmd.ArgsLenAtDash()\<close>, which is -1 when the command line has no \<^verbatim>\<open>--\<close>.
\<close>

definition RunE ::
  "env \<Rightarrow> world \<Rightarrow> string list \<Rightarrow> int \<Rightarrow> SubmitJobOptions
     \<Rightarrow> (failure option \<times> event list) option" where
  "RunE e w args entryPointStart options =
     (if entryPointStart < 0 \<or> int (length args) < entryPointStart
      then Some (Some (Panicked SliceBoundsOutOfRange), [])
      else
        (let options = options\<lparr>entryPoint := Join (drop (nat entryPointStart) args) '' ''\<rparr>;
             options = Complete e options
         in case Validate e options of
              Inl f \<Rightarrow> Some (Some f, [])
            | Inr options \<Rightarrow> Run w options))"

section \<open>A world in which a submission succeeds\<close>

definition example_status :: iface where
  "example_status = IMap [(''rayClusterName'', IString ''rayjob-sample-raycluster'')]"

definition example_cluster :: "string \<Rightarrow> unstructured" where
  "example_cluster state =
     [(''kind'', IString ''RayCluster''),
      (''metadata'', IMap [(''name'', IString ''rayjob-sample-raycluster'')]),
      (''status'', IMap [(''state'', IString state)])]"

text \<open>The lines of output of the example in the specification.\<close>

definition example_tokens :: "string list" where
  "example_tokens =
     [''starting'',
      ''Job '' @ [squote] @ ''raysubmit_abc123'' @ [squote] @ '' submitted'',
      ''Job '' @ [squote] @ ''raysubmit_xyz999'' @ [squote] @ '' submitted'']"

definition example_world :: world where
  "example_world =
     \<lparr>NewClient = None,
      Create = (\<lambda>job. Inr job),
      GetJob = (\<lambda>k. Inr (map_assign example_rayjob ''status'' example_status)),
      GetCluster = (\<lambda>k. Inr (example_cluster ''ready'')),
      clusterLatency = (\<lambda>k. 0),
      Delete = None,
      HeadSvcName = Inr ''rayjob-sample-raycluster-head-svc'',
      NewRequest = None,
      Do = (\<lambda>k. \<lparr>do_response = Some 200, do_err = None\<rparr>),
      probeLatency = (\<lambda>k. 0),
      Sprintf_f32 = (\<lambda>x. ''1.000000''),
      StdoutPipe = None,
      StderrPipe = None,
      stdoutTokens = example_tokens,
      storeSeen = (\<lambda>k. False),
      GetLatest = Inr (map_assign example_rayjob ''status'' example_status),
      Update = (\<lambda>job. None),
      Wait = None\<rparr>"

section \<open>The readiness signal a poll sees\<close>

text \<open>
  The elapsed time measured after \<open>n\<close> iterations of a poll loop, the value of the
  readiness predicate at the \<open>j\<close>-th fetch of the cluster (none when the fetch fails or
  the predicate panics) and at the \<open>j\<close>-th probe of the forwarded port (none without a
  response).
\<close>

primrec clock :: "(nat \<Rightarrow> nat) \<Rightarrow> nat \<Rightarrow> nat" where
  "clock latency 0 = 0"
| "clock latency (Suc n) = clock latency n + 2 * second + latency n"



text \<open>
  Worlds for evaluating the loops: the first fetch of the cluster fails; the cluster
  never gets ready and its 61st fetch takes three seconds; every probe is answered 503
  and the 31st takes three seconds; every probe fails to connect.
\<close>

definition flaky_world :: world where
  "flaky_world =
     example_world\<lparr>GetCluster :=
       (\<lambda>k. if k = 0 then Inl ''connection reset by peer'' else Inr (example_cluster ''ready''))\<rparr>"

definition slow_world :: world where
  "slow_world =
     example_world\<lparr>GetCluster := (\<lambda>k. Inr (example_cluster ''pending'')),
                   clusterLatency := (\<lambda>k. if k = 60 then 3 * second else 0)\<rparr>"


definition refused_world :: world where
  "refused_world =
     example_world\<lparr>Do := (\<lambda>k. \<lparr>do_response = None, do_err = Some ''connection refused''\<rparr>)\<rparr>"

section \<open>Single-quoted substrings\<close>

text \<open>
  \<open>quoted_at s i m\<close>: in \<open>s\<close> there is a quote at offset \<open>i\<close>, then \<open>m\<close>, which holds no
  quote, then a quote. This is the notion of the specification, not code.
\<close>

definition quoted_at :: "string \<Rightarrow> nat \<Rightarrow> string \<Rightarrow> bool" where
  "quoted_at s i m =
     (\<exists>pre post. s = pre @ squote # m @ squote # post \<and> length pre = i \<and> squote \<notin> set m)"

section \<open>Events that delete the RayJob\<close>

fun is_DeleteRayJob :: "event \<Rightarrow> bool" where
  "is_DeleteRayJob (DeleteRayJob n) = True"
| "is_DeleteRayJob ev = False"

text \<open>
  Worlds in which one request hangs for 130 seconds: the first fetch of a cluster that
  is not ready, and the first probe of a port that answers 503.
\<close>

definition hung_cluster_world :: world where
  "hung_cluster_world =
     example_world\<lparr>GetCluster := (\<lambda>k. Inr (example_cluster ''pending'')),
                   clusterLatency := (\<lambda>k. 130 * second)\<rparr>"

definition hung_probe_world :: world where
  "hung_probe_world =
     example_world\<lparr>Do := (\<lambda>k. \<lparr>do_response = Some 503, do_err = None\<rparr>),
                   probeLatency := (\<lambda>k. 130 * second)\<rparr>"

section \<open>Properties of isRayClusterReady\<close>

lemma isRayClusterReady_status_map:
  assumes "map_index rayCluster ''status'' = IMap status"
  shows "isRayClusterReady rayCluster =
           (if (\<exists>cs. map_index status ''conditions'' = IConditions cs
                      \<and> IsStatusConditionTrue cs ''Ready'')
               \<or> map_index status ''state'' = IString ''ready''
            then Inr (True, None)
            else Inr (False, Some CannotDetermineClusterState))"
  using assms
  by (auto simp: isRayClusterReady_def Let_def split: iface.splits)

text \<open>
  C6. The cluster-readiness predicate on a cluster object that has no status at all
  (neither readiness signal is present): the unchecked type assertion on
  \<^verbatim>\<open>Object["status"]\<close> panics, so no undetermined-state error is returned for the
  polling loop to retry.
\<close>

theorem isRayClusterReady_no_status_panics:
  "isRayClusterReady [(''kind'', IString ''RayCluster'')] = Inl (Panicked InterfaceConversion)"
  by (simp add: isRayClusterReady_def map_index_def)

section \<open>Properties of the tokenizer and of raySubmitCmd\<close>

declare Split_loop.simps [simp del]
declare nat_to_dec.simps [simp del]
















section \<open>Properties of Validate\<close>

lemma Validate_runtimeEnv_panics:
  assumes "runtimeEnv options \<noteq> []"
    and "Stat e (runtimeEnv options) = StatInfo True"
    and "ReadFile e (runtimeEnv options) = Inr content"
    and "yaml_Unmarshal e content = Inr runtimeEnvYaml"
    and "\<forall>s. map_index runtimeEnvYaml ''working_dir'' \<noteq> IString s"
  shows "Validate_runtimeEnv e options = Inl (Panicked InterfaceConversion)"
proof -
  have "runtimeEnvHasWorkingDir e (runtimeEnv options) = Inl InterfaceConversion"
    using assms(3,4,5)
    by (cases "map_index runtimeEnvYaml ''working_dir''")
       (simp_all add: runtimeEnvHasWorkingDir_def)
  with assms(1,2) show ?thesis
    by (simp add: Validate_runtimeEnv_def)
qed

lemma Validate_spec_panics:
  assumes "\<forall>spec. map_index rayJob ''spec'' \<noteq> IMap spec"
  shows "Validate_spec e options rayJob = Inl (Panicked InterfaceConversion)"
  using assms
  by (cases "map_index rayJob ''spec''") (simp_all add: Validate_spec_def)

text \<open>
  C10. Validate panics instead of returning an error in two cases. With a current
  context set: when the runtime-env file is a regular file that reads and parses but
  whose \<^verbatim>\<open>working_dir\<close> is missing or not a string; and when the runtime-env block has
  passed, the RayJob file is a regular file that decodes, and its \<^verbatim>\<open>spec\<close> is missing or
  not a mapping.
\<close>

theorem Validate_panics_on_unchecked_assertions:
  assumes "RawConfig e = Inr currentContext" and "currentContext \<noteq> []"
  shows "(runtimeEnv options \<noteq> []
          \<and> Stat e (runtimeEnv options) = StatInfo True
          \<and> ReadFile e (runtimeEnv options) = Inr content
          \<and> yaml_Unmarshal e content = Inr runtimeEnvYaml
          \<and> (\<forall>s. map_index runtimeEnvYaml ''working_dir'' \<noteq> IString s)
          \<longrightarrow> Validate e options = Inl (Panicked InterfaceConversion))
       \<and> (Validate_runtimeEnv e options = Inr options'
          \<and> Stat e (fileName options') = StatInfo True
          \<and> decodeRayJobYaml e (fileName options') = Inr rayJob
          \<and> (\<forall>spec. map_index rayJob ''spec'' \<noteq> IMap spec)
          \<longrightarrow> Validate e options = Inl (Panicked InterfaceConversion))"
proof (intro conjI impI)
  assume "runtimeEnv options \<noteq> []
          \<and> Stat e (runtimeEnv options) = StatInfo True
          \<and> ReadFile e (runtimeEnv options) = Inr content
          \<and> yaml_Unmarshal e content = Inr runtimeEnvYaml
          \<and> (\<forall>s. map_index runtimeEnvYaml ''working_dir'' \<noteq> IString s)"
  then have "Validate_runtimeEnv e options = Inl (Panicked InterfaceConversion)"
    using Validate_runtimeEnv_panics by blast
  with assms show "Validate e options = Inl (Panicked InterfaceConversion)"
    by (simp add: Validate_def)
next
  assume h: "Validate_runtimeEnv e options = Inr options'
          \<and> Stat e (fileName options') = StatInfo True
          \<and> decodeRayJobYaml e (fileName options') = Inr rayJob
          \<and> (\<forall>spec. map_index rayJob ''spec'' \<noteq> IMap spec)"
  then have "Validate_spec e (options'\<lparr>RayJob := Some rayJob\<rparr>) rayJob
             = Inl (Panicked InterfaceConversion)"
    using Validate_spec_panics by blast
  with assms h show "Validate e options = Inl (Panicked InterfaceConversion)"
    by (simp add: Validate_def)
qed

theorem Validate_panics_on_unchecked_assertions_witness:
  "Validate (example_env [(''pip'', ISlice [IString ''requests''])] example_rayjob)
     (example_options\<lparr>runtimeEnv := ''runtimeEnv.yaml''\<rparr>)
     = Inl (Panicked InterfaceConversion)
   \<and> Validate (example_env [] [(''kind'', IString ''RayJob'')]) example_options
     = Inl (Panicked InterfaceConversion)"
proof -
  let ?m = "[(''pip'', ISlice [IString ''requests''])]"
  let ?e1 = "example_env ?m example_rayjob"
  let ?o1 = "example_options\<lparr>runtimeEnv := ''runtimeEnv.yaml''\<rparr>"
  let ?j = "[(''kind'', IString ''RayJob'')]"
  let ?e2 = "example_env [] ?j"
  have 1: "Validate ?e1 ?o1 = Inl (Panicked InterfaceConversion)"
    using Validate_panics_on_unchecked_assertions
            [of ?e1 "''kind-kind''" ?o1 "''runtimeEnv.yaml''" ?m]
    by (simp add: example_env_def map_index_def)
  have 2: "Validate ?e2 example_options = Inl (Panicked InterfaceConversion)"
    using Validate_panics_on_unchecked_assertions
            [of ?e2 "''kind-kind''" example_options _ _ example_options ?j]
    by (simp add: example_env_def map_index_def example_options_def
                  Validate_runtimeEnv_def decodeRayJobYaml_def)
  from 1 2 show ?thesis by simp
qed

section \<open>Properties of the poll loops\<close>

declare cluster_loop.simps [simp del]
declare portforward_loop.simps [simp del]
declare find_quoted.simps [simp del]

lemmas world_eval =
  example_world_def example_cluster_def example_status_def example_rayjob_def
  example_options_def example_env_def

lemma cluster_loop_fetch_error:
  assumes "t \<le> clusterTimeout" and "GetCluster w k = Inl e"
  shows "cluster_loop w name k t tr =
           \<lparr>outcome = Inl (Returned (GetClusterError e)), requests = Suc k, elapsed = t,
            events = tr @ [Sleep (2 * second), GetRayCluster name]\<rparr>"
  using assms by (subst cluster_loop.simps) simp

lemma cluster_loop_not_ready:
  assumes "t \<le> clusterTimeout" and "GetCluster w k = Inr c"
    and "isRayClusterReady c = Inr (False, e)"
  shows "cluster_loop w name k t tr =
           cluster_loop w name (Suc k) (t + 2 * second + clusterLatency w k)
             (tr @ [Sleep (2 * second), GetRayCluster name]
                 @ (case e of None \<Rightarrow> [] | Some e' \<Rightarrow> [PrintError (ClusterNotReady e')]))"
  using assms by (subst cluster_loop.simps) (simp add: Let_def)




lemma clock_lower: "2 * second * n \<le> clock latency n"
  by (induction n) auto










lemma portforward_loop_panic:
  assumes "t \<le> portforwardtimeout" and "do_response (Do w k) = None"
  shows "portforward_loop w k t tr =
           \<lparr>outcome = Inl (Panicked NilPointerDereference), requests = Suc k, elapsed = t,
            events = tr @ [Sleep (2 * second), HttpGet dashboardAddr]
                 @ (case do_err (Do w k) of None \<Rightarrow> []
                    | Some e \<Rightarrow> [PrintError (PortForwardWaitError e)])\<rparr>"
  using assms by (subst portforward_loop.simps) (simp add: Let_def)









lemma isRayClusterReady_pending:
  "isRayClusterReady (example_cluster ''pending'')
     = Inr (False, Some CannotDetermineClusterState)"
  by (simp add: isRayClusterReady_def example_cluster_def map_index_def)







text \<open>
  C4. The first probe of the forwarded port fails to connect: \<^verbatim>\<open>Do\<close> returns a nil
  response with its error, the error is printed, and reading the status code of the
  nil response panics. The probe is not retried and no timeout is reported.
\<close>

theorem portforward_probe_transport_error_panics:
  "portforward_loop refused_world 0 0 [] =
     \<lparr>outcome = Inl (Panicked NilPointerDereference), requests = 1, elapsed = 0,
      events = [Sleep (2 * second), HttpGet ''http://localhost:8265'',
                PrintError (PortForwardWaitError ''connection refused'')]\<rparr>"
  by (subst portforward_loop_panic)
     (simp_all add: refused_world_def example_world_def portforwardtimeout_def dashboardAddr_def)

text \<open>
  C3, as stated: an error of the fetch in the cluster-readiness loop is logged and the
  fetch retried, never fatal on its own. In a world where only the first fetch of the
  cluster fails, Run returns that error after this one fetch, with nothing elapsed of
  the two minutes.
\<close>

theorem cluster_fetch_error_counterexample:
  "Run flaky_world (example_options\<lparr>RayJob := Some example_rayjob\<rparr>)
     = Some (Some (Returned (GetClusterError ''connection reset by peer'')),
             [CreateRayJob example_rayjob,
              Print ''Submitted RayJob rayjob-sample.'',
              GetRayJob ''rayjob-sample'', Sleep (2 * second),
              Print ''Waiting for RayCluster'',
              Print ''Checking Cluster Status for cluster rayjob-sample-raycluster...'',
              Sleep (2 * second), GetRayCluster ''rayjob-sample-raycluster''])"
  by (simp add: Run_def Run_cluster_def flaky_world_def world_eval status_loop.simps
      cluster_loop.simps GetName_def map_index_def Let_def second_def clusterTimeout_def)

text \<open>
  C3, amended. In the cluster-readiness loop an error of the fetch ends the loop at
  once with that error as the failure of Run, and the RayJob is not deleted; what is
  printed and retried is the undetermined-state error of the readiness predicate. An
  error of the fetch in the loop that waits for the status is fatal at once as well.
\<close>

theorem cluster_fetch_error_is_fatal:
  "(t \<le> clusterTimeout \<and> GetCluster w k = Inl e \<longrightarrow>
      cluster_loop w name k t tr =
        \<lparr>outcome = Inl (Returned (GetClusterError e)), requests = Suc k, elapsed = t,
         events = tr @ [Sleep (2 * second), GetRayCluster name]\<rparr>)
   \<and> (map_index rayJob ''status'' = IMap st \<and> map_index st ''rayClusterName'' = IString cn
       \<and> cn \<noteq> [] \<and> GetCluster w 0 = Inl e \<longrightarrow>
      Run_cluster w options rayJob =
        Some (Some (Returned (GetClusterError e)),
              [Print ''Waiting for RayCluster'',
               Print (''Checking Cluster Status for cluster '' @ cn @ ''...''),
               Sleep (2 * second), GetRayCluster cn]))
   \<and> (t \<le> clusterTimeout \<and> GetCluster w k = Inr c
       \<and> isRayClusterReady c = Inr (False, Some CannotDetermineClusterState) \<longrightarrow>
      cluster_loop w name k t tr =
        cluster_loop w name (Suc k) (t + 2 * second + clusterLatency w k)
          (tr @ [Sleep (2 * second), GetRayCluster name,
                 PrintError (ClusterNotReady CannotDetermineClusterState)]))
   \<and> (map_index rayJob ''status'' = INil \<and> GetJob w k = Inl e \<longrightarrow>
      status_loop w k rayJob tr =
        Some (Inl (Returned GetRayJobStatusError), tr @ [GetRayJob (GetName rayJob)]))"
proof (intro conjI impI)
  assume "t \<le> clusterTimeout \<and> GetCluster w k = Inl e"
  then show "cluster_loop w name k t tr =
        \<lparr>outcome = Inl (Returned (GetClusterError e)), requests = Suc k, elapsed = t,
         events = tr @ [Sleep (2 * second), GetRayCluster name]\<rparr>"
    by (simp add: cluster_loop_fetch_error)
next
  assume "map_index rayJob ''status'' = IMap st \<and> map_index st ''rayClusterName'' = IString cn
       \<and> cn \<noteq> [] \<and> GetCluster w 0 = Inl e"
  then show "Run_cluster w options rayJob =
        Some (Some (Returned (GetClusterError e)),
              [Print ''Waiting for RayCluster'',
               Print (''Checking Cluster Status for cluster '' @ cn @ ''...''),
               Sleep (2 * second), GetRayCluster cn])"
    by (simp add: Run_cluster_def cluster_loop_fetch_error Let_def)
next
  assume "t \<le> clusterTimeout \<and> GetCluster w k = Inr c
       \<and> isRayClusterReady c = Inr (False, Some CannotDetermineClusterState)"
  then show "cluster_loop w name k t tr =
        cluster_loop w name (Suc k) (t + 2 * second + clusterLatency w k)
          (tr @ [Sleep (2 * second), GetRayCluster name,
                 PrintError (ClusterNotReady CannotDetermineClusterState)])"
    using cluster_loop_not_ready [of t w k c "Some CannotDetermineClusterState" name tr]
    by simp
next
  assume "map_index rayJob ''status'' = INil \<and> GetJob w k = Inl e"
  then show "status_loop w k rayJob tr =
        Some (Inl (Returned GetRayJobStatusError), tr @ [GetRayJob (GetName rayJob)])"
    by (subst status_loop.simps) simp
qed

theorem cluster_fetch_error_is_fatal_witness:
  "cluster_loop flaky_world ''c'' 0 0 [] =
     \<lparr>outcome = Inl (Returned (GetClusterError ''connection reset by peer'')),
      requests = Suc 0, elapsed = 0, events = [Sleep (2 * second), GetRayCluster ''c'']\<rparr>
   \<and> cluster_loop slow_world ''c'' 0 0 [] =
       cluster_loop slow_world ''c'' (Suc 0) (2 * second)
         [Sleep (2 * second), GetRayCluster ''c'',
          PrintError (ClusterNotReady CannotDetermineClusterState)]
   \<and> status_loop (example_world\<lparr>GetJob := (\<lambda>k. Inl ''timeout'')\<rparr>) 0 example_rayjob [] =
       Some (Inl (Returned GetRayJobStatusError), [GetRayJob ''rayjob-sample''])"
proof -
  have h1: "(0::nat) \<le> clusterTimeout
            \<and> GetCluster flaky_world 0 = Inl ''connection reset by peer''"
    by (simp add: flaky_world_def example_world_def)
  have h2: "(0::nat) \<le> clusterTimeout
            \<and> GetCluster slow_world 0 = Inr (example_cluster ''pending'')
            \<and> isRayClusterReady (example_cluster ''pending'')
                = Inr (False, Some CannotDetermineClusterState)"
    by (simp add: slow_world_def example_world_def isRayClusterReady_pending)
  have h3: "map_index example_rayjob ''status'' = INil
            \<and> GetJob (example_world\<lparr>GetJob := (\<lambda>k. Inl ''timeout'')\<rparr>) 0 = Inl ''timeout''"
    by (simp add: example_rayjob_def map_index_def)
  have l: "clusterLatency slow_world 0 = 0"
    by (simp add: slow_world_def example_world_def)
  have n: "GetName example_rayjob = ''rayjob-sample''"
    by (simp add: GetName_def example_rayjob_def map_index_def)
  from h1 cluster_fetch_error_is_fatal
         [of 0 flaky_world 0 "''connection reset by peer''" "''c''" "[]"]
  have c1: "cluster_loop flaky_world ''c'' 0 0 [] =
     \<lparr>outcome = Inl (Returned (GetClusterError ''connection reset by peer'')),
      requests = Suc 0, elapsed = 0, events = [] @ [Sleep (2 * second), GetRayCluster ''c'']\<rparr>"
    by blast
  from h2 cluster_fetch_error_is_fatal
         [of 0 slow_world 0 _ "''c''" "[]" _ _ _ _ "example_cluster ''pending''"]
  have c2: "cluster_loop slow_world ''c'' 0 0 [] =
       cluster_loop slow_world ''c'' (Suc 0) (0 + 2 * second + clusterLatency slow_world 0)
         ([] @ [Sleep (2 * second), GetRayCluster ''c'',
          PrintError (ClusterNotReady CannotDetermineClusterState)])"
    by blast
  from h3 cluster_fetch_error_is_fatal
         [of _ "example_world\<lparr>GetJob := (\<lambda>k. Inl ''timeout'')\<rparr>" 0 "''timeout''" _ "[]"
             example_rayjob]
  have c3: "status_loop (example_world\<lparr>GetJob := (\<lambda>k. Inl ''timeout'')\<rparr>) 0 example_rayjob [] =
       Some (Inl (Returned GetRayJobStatusError), [] @ [GetRayJob (GetName example_rayjob)])"
    by blast
  from c1 c2 c3 l n show ?thesis by simp
qed

section \<open>Properties of the job identifier correlation\<close>

lemma take_prefix_iff: "take (length sub) xs = sub \<longleftrightarrow> (\<exists>post. xs = sub @ post)"
proof
  assume "take (length sub) xs = sub"
  then have "xs = sub @ drop (length sub) xs"
    using append_take_drop_id [of "length sub" xs] by simp
  then show "\<exists>post. xs = sub @ post" ..
next
  assume "\<exists>post. xs = sub @ post"
  then show "take (length sub) xs = sub" by auto
qed

lemma Contains_iff: "Contains s sub \<longleftrightarrow> (\<exists>pre post. s = pre @ sub @ post)"
proof (induction s)
  case Nil
  then show ?case by auto
next
  case (Cons c s)
  show ?case
  proof
    assume "Contains (c # s) sub"
    then consider "take (length sub) (c # s) = sub" | "Contains s sub" by auto
    then show "\<exists>pre post. c # s = pre @ sub @ post"
    proof cases
      case 1
      with take_prefix_iff obtain post where "c # s = sub @ post" by blast
      then have "c # s = [] @ sub @ post" by simp
      then show ?thesis by blast
    next
      case 2
      with Cons.IH obtain pre post where "s = pre @ sub @ post" by blast
      then have "c # s = (c # pre) @ sub @ post" by simp
      then show ?thesis by blast
    qed
  next
    assume "\<exists>pre post. c # s = pre @ sub @ post"
    then obtain pre post where e: "c # s = pre @ sub @ post" by blast
    show "Contains (c # s) sub"
    proof (cases pre)
      case Nil
      with e have "\<exists>post. c # s = sub @ post" by simp
      then have "take (length sub) (c # s) = sub" using take_prefix_iff by blast
      then show ?thesis by simp
    next
      case (Cons d pre')
      with e have "s = pre' @ sub @ post" by simp
      then have "Contains s sub" using Cons.IH by blast
      then show ?thesis by simp
    qed
  qed
qed

lemma Contains_mid: "Contains m sub \<Longrightarrow> Contains (a @ m @ b) sub"
proof -
  assume "Contains m sub"
  then obtain pre post where "m = pre @ sub @ post" using Contains_iff by blast
  then have "a @ m @ b = (a @ pre) @ sub @ (post @ b)" by simp
  then show ?thesis using Contains_iff by blast
qed

lemma dropWhile_squote:
  "dropWhile (\<lambda>c. c \<noteq> squote) s = q # rest \<Longrightarrow> q = squote"
  by (induction s) (auto split: if_splits)

lemma takeWhile_no_squote: "squote \<notin> set (takeWhile (\<lambda>c. c \<noteq> squote) s)"
  by (induction s) auto

lemma find_quoted_sound:
  "find_quoted s = Some m \<Longrightarrow>
   squote \<notin> set m \<and> Contains m ''raysubmit''
   \<and> (\<exists>pre post. squote # s = pre @ squote # m @ squote # post)"
proof (induction s rule: find_quoted.induct)
  case (1 s)
  let ?seg = "takeWhile (\<lambda>c. c \<noteq> squote) s"
  let ?rest = "dropWhile (\<lambda>c. c \<noteq> squote) s"
  have s: "s = ?seg @ ?rest" by simp
  show ?case
  proof (cases ?rest)
    case Nil
    with "1.prems" show ?thesis by (subst (asm) find_quoted.simps) simp
  next
    case (Cons q rest')
    then have q: "q = squote" by (rule dropWhile_squote)
    show ?thesis
    proof (cases "Contains ?seg ''raysubmit''")
      case True
      with Cons "1.prems" have m: "m = ?seg" by (subst (asm) find_quoted.simps) simp
      have "squote # s = [] @ squote # ?seg @ squote # rest'"
        using s Cons q by simp
      then show ?thesis using True m takeWhile_no_squote by blast
    next
      case False
      with Cons "1.prems" have "find_quoted rest' = Some m"
        by (subst (asm) find_quoted.simps) simp
      with "1.IH" [OF Cons False] obtain pre post
        where a: "squote \<notin> set m" "Contains m ''raysubmit''"
          "squote # rest' = pre @ squote # m @ squote # post"
        by blast
      have "squote # s = squote # ?seg @ (squote # rest')"
        using s Cons q by simp
      then have "squote # s = (squote # ?seg @ pre) @ squote # m @ squote # post"
        using a(3) by simp
      then show ?thesis using a(1,2) by blast
    qed
  qed
qed

lemma FindStringSubmatch_sound:
  assumes "1 < length (FindStringSubmatch s)"
  shows "squote \<notin> set (FindStringSubmatch s ! 1)
         \<and> Contains (FindStringSubmatch s ! 1) ''raysubmit''
         \<and> (\<exists>pre post. s = pre @ squote # (FindStringSubmatch s ! 1) @ squote # post)"
proof -
  let ?rest = "dropWhile (\<lambda>c. c \<noteq> squote) s"
  from assms obtain q rest m where r: "?rest = q # rest" and f: "find_quoted rest = Some m"
    and m: "FindStringSubmatch s = [squote # m @ [squote], m]"
    by (auto simp: FindStringSubmatch_def split: list.splits option.splits)
  have q: "q = squote" using r by (rule dropWhile_squote)
  from find_quoted_sound [OF f] obtain pre post
    where a: "squote \<notin> set m" "Contains m ''raysubmit''"
      "squote # rest = pre @ squote # m @ squote # post"
    by blast
  have "s = takeWhile (\<lambda>c. c \<noteq> squote) s @ ?rest" by simp
  then have "s = takeWhile (\<lambda>c. c \<noteq> squote) s @ (squote # rest)" using r q by simp
  then have "s = (takeWhile (\<lambda>c. c \<noteq> squote) s @ pre) @ squote # m @ squote # post"
    using a(3) by simp
  then have "\<exists>pre post. s = pre @ squote # m @ squote # post" by blast
  with a m show ?thesis by simp
qed

lemma FindStringSubmatch_Contains:
  assumes "1 < length (FindStringSubmatch s)"
  shows "s \<noteq> [] \<and> Contains s ''raysubmit''"
proof -
  from FindStringSubmatch_sound [OF assms] obtain pre post
    where c: "Contains (FindStringSubmatch s ! 1) ''raysubmit''"
      and s: "s = pre @ squote # (FindStringSubmatch s ! 1) @ squote # post"
    by blast
  from s have "s = (pre @ [squote]) @ (FindStringSubmatch s ! 1) @ (squote # post)" by simp
  then have "Contains s ''raysubmit''" using Contains_mid [OF c] by metis
  moreover from s have "s \<noteq> []" by auto
  ultimately show ?thesis by simp
qed


lemma first_occurrence_unique:
  "x \<notin> set a \<Longrightarrow> x \<notin> set c \<Longrightarrow> a @ x # b = c @ x # d \<Longrightarrow> a = c \<and> b = d"
proof (induction a arbitrary: c)
  case Nil
  then show ?case by (cases c) auto
next
  case (Cons y a)
  then show ?case by (cases c) auto
qed

lemma split_at_first_quote:
  assumes "squote \<notin> set seg" and "seg @ squote # rest = pre @ squote # x"
  shows "\<exists>pre'. pre = seg @ pre' \<and> squote # rest = pre' @ squote # x"
proof (cases "squote \<in> set pre")
  case False
  with assms have "seg = pre \<and> rest = x" by (metis first_occurrence_unique)
  then show ?thesis by simp
next
  case True
  then obtain a b where p: "pre = a @ squote # b" and a: "squote \<notin> set a"
    using split_list_first by fastforce
  with assms(2) have "seg @ squote # rest = a @ squote # (b @ squote # x)" by simp
  with assms(1) a have "seg = a \<and> rest = b @ squote # x" by (metis first_occurrence_unique)
  with p show ?thesis by simp
qed

lemma find_quoted_first:
  "(\<forall>m. find_quoted s = Some m \<longrightarrow>
      (\<exists>i. quoted_at (squote # s) i m \<and> Contains m ''raysubmit''
           \<and> (\<forall>j m'. quoted_at (squote # s) j m' \<and> Contains m' ''raysubmit'' \<longrightarrow> i \<le> j)))
   \<and> (find_quoted s = None \<longrightarrow>
      (\<forall>j m'. quoted_at (squote # s) j m' \<longrightarrow> \<not> Contains m' ''raysubmit''))"
proof (induction s rule: find_quoted.induct)
  case (1 s)
  let ?seg = "takeWhile (\<lambda>c. c \<noteq> squote) s"
  let ?rest = "dropWhile (\<lambda>c. c \<noteq> squote) s"
  have s: "s = ?seg @ ?rest" by simp
  have seg: "squote \<notin> set ?seg" by (rule takeWhile_no_squote)
  show ?case
  proof (cases ?rest)
    case Nil
    then have none: "find_quoted s = None"
      by (subst find_quoted.simps) (simp only: list.case)
    from Nil have nq: "squote \<notin> set s" by auto
    have "\<not> quoted_at (squote # s) j m'" for j m'
    proof
      assume "quoted_at (squote # s) j m'"
      then obtain pre post where e: "squote # s = pre @ squote # m' @ squote # post"
        by (auto simp: quoted_at_def)
      then have "squote \<in> set s"
        by (cases pre) auto
      with nq show False by simp
    qed
    with none show ?thesis by simp
  next
    case (Cons q rest')
    then have q: "q = squote" by (rule dropWhile_squote)
    have s': "s = ?seg @ squote # rest'" using s Cons q by simp
    have later: "\<exists>j'. quoted_at (squote # rest') j' m' \<and> Suc (length ?seg) + j' = j"
      if qa: "quoted_at (squote # s) j m'" and ne: "m' \<noteq> ?seg \<or> j \<noteq> 0" for j m'
    proof -
      from qa obtain pre post where e: "squote # s = pre @ squote # m' @ squote # post"
        and l: "length pre = j" and m': "squote \<notin> set m'"
        by (auto simp: quoted_at_def)
      show ?thesis
      proof (cases pre)
        case Nil
        with e have "s = m' @ squote # post" by simp
        with s' seg m' have "m' = ?seg" by (metis first_occurrence_unique)
        with Nil l ne show ?thesis by simp
      next
        case (Cons p pre1)
        with e have "?seg @ squote # rest' = pre1 @ squote # (m' @ squote # post)"
          using s' by simp
        from split_at_first_quote [OF seg this] obtain pre'
          where p': "pre1 = ?seg @ pre'" and r: "squote # rest' = pre' @ squote # m' @ squote # post"
          by blast
        from r m' have "quoted_at (squote # rest') (length pre') m'"
          by (auto simp: quoted_at_def)
        moreover have "Suc (length ?seg) + length pre' = j"
          using l Cons p' by simp
        ultimately show ?thesis by blast
      qed
    qed
    show ?thesis
    proof (cases "Contains ?seg ''raysubmit''")
      case True
      with Cons have f: "find_quoted s = Some ?seg" by (subst find_quoted.simps) simp
      have "squote # s = [] @ squote # ?seg @ squote # rest'" using s' by simp
      with seg have "quoted_at (squote # s) 0 ?seg"
        unfolding quoted_at_def by blast
      with f True show ?thesis by auto
    next
      case False
      with Cons have f: "find_quoted s = find_quoted rest'" by (subst find_quoted.simps) simp
      note IH = "1.IH" [OF Cons False]
      have shift: "quoted_at (squote # s) (Suc (length ?seg) + i) m"
        if "quoted_at (squote # rest') i m" for i m
      proof -
        from that obtain pre post where "squote # rest' = pre @ squote # m @ squote # post"
          and "length pre = i" and "squote \<notin> set m"
          by (auto simp: quoted_at_def)
        moreover from this have "squote # s = (squote # ?seg @ pre) @ squote # m @ squote # post"
          using s' by simp
        ultimately show ?thesis
          unfolding quoted_at_def by (metis length_Cons length_append add_Suc)
      qed
      have unshift: "\<exists>j'. quoted_at (squote # rest') j' m' \<and> Suc (length ?seg) + j' = j"
        if "quoted_at (squote # s) j m'" and "Contains m' ''raysubmit''" for j m'
        using later [OF that(1)] that(2) False by auto
      show ?thesis
      proof (intro conjI allI impI)
        fix m
        assume "find_quoted s = Some m"
        then have "find_quoted rest' = Some m" using f by simp
        with IH have "\<exists>i. quoted_at (squote # rest') i m \<and> Contains m ''raysubmit''
           \<and> (\<forall>j m'. quoted_at (squote # rest') j m' \<and> Contains m' ''raysubmit'' \<longrightarrow> i \<le> j)"
          by blast
        then obtain i where i: "quoted_at (squote # rest') i m" "Contains m ''raysubmit''"
          "\<forall>j m'. quoted_at (squote # rest') j m' \<and> Contains m' ''raysubmit'' \<longrightarrow> i \<le> j"
          by blast
        have "\<forall>j m'. quoted_at (squote # s) j m' \<and> Contains m' ''raysubmit''
                \<longrightarrow> Suc (length ?seg) + i \<le> j"
          using unshift i(3) by fastforce
        with shift [OF i(1)] i(2)
        show "\<exists>i. quoted_at (squote # s) i m \<and> Contains m ''raysubmit''
           \<and> (\<forall>j m'. quoted_at (squote # s) j m' \<and> Contains m' ''raysubmit'' \<longrightarrow> i \<le> j)"
          by blast
      next
        fix j m'
        assume n: "find_quoted s = None" and qa: "quoted_at (squote # s) j m'"
        from n f have "find_quoted rest' = None" by simp
        with IH have none: "\<forall>j m'. quoted_at (squote # rest') j m' \<longrightarrow> \<not> Contains m' ''raysubmit''"
          by blast
        show "\<not> Contains m' ''raysubmit''"
        proof
          assume c: "Contains m' ''raysubmit''"
          from unshift [OF qa c] obtain j' where "quoted_at (squote # rest') j' m'" by blast
          with none c show False by blast
        qed
      qed
    qed
  qed
qed

lemma FindStringSubmatch_first:
  "(1 < length (FindStringSubmatch s) \<longrightarrow>
      (\<exists>i. quoted_at s i (FindStringSubmatch s ! 1)
           \<and> Contains (FindStringSubmatch s ! 1) ''raysubmit''
           \<and> (\<forall>j m'. quoted_at s j m' \<and> Contains m' ''raysubmit'' \<longrightarrow> i \<le> j)))
   \<and> (\<not> 1 < length (FindStringSubmatch s) \<longrightarrow>
      (\<forall>j m'. quoted_at s j m' \<longrightarrow> \<not> Contains m' ''raysubmit''))"
proof -
  let ?seg = "takeWhile (\<lambda>c. c \<noteq> squote) s"
  let ?rest = "dropWhile (\<lambda>c. c \<noteq> squote) s"
  have s: "s = ?seg @ ?rest" by simp
  have seg: "squote \<notin> set ?seg" by (rule takeWhile_no_squote)
  show ?thesis
  proof (cases ?rest)
    case Nil
    then have none: "FindStringSubmatch s = []"
      unfolding FindStringSubmatch_def by (simp only: list.case)
    from Nil have nq: "squote \<notin> set s" by auto
    have "\<not> quoted_at s j m'" for j m'
      using nq by (auto simp: quoted_at_def)
    with none show ?thesis by simp
  next
    case (Cons q rest)
    then have q: "q = squote" by (rule dropWhile_squote)
    have s': "s = ?seg @ squote # rest" using s Cons q by simp
    have fss: "FindStringSubmatch s =
                 (case find_quoted rest of None \<Rightarrow> [] | Some m \<Rightarrow> [squote # m @ [squote], m])"
      using Cons by (simp add: FindStringSubmatch_def)
    have shift: "quoted_at s (length ?seg + i) m" if "quoted_at (squote # rest) i m" for i m
    proof -
      from that obtain pre post where "squote # rest = pre @ squote # m @ squote # post"
        and "length pre = i" and "squote \<notin> set m"
        by (auto simp: quoted_at_def)
      moreover from this have "s = (?seg @ pre) @ squote # m @ squote # post"
        using s' by simp
      ultimately show ?thesis
        unfolding quoted_at_def by (metis length_append)
    qed
    have unshift: "\<exists>j'. quoted_at (squote # rest) j' m' \<and> length ?seg + j' = j"
      if "quoted_at s j m'" for j m'
    proof -
      from that obtain pre post where e: "s = pre @ squote # m' @ squote # post"
        and l: "length pre = j" and m': "squote \<notin> set m'"
        by (auto simp: quoted_at_def)
      from e s' have "?seg @ squote # rest = pre @ squote # (m' @ squote # post)" by simp
      from split_at_first_quote [OF seg this] obtain pre'
        where "pre = ?seg @ pre'" and "squote # rest = pre' @ squote # m' @ squote # post"
        by blast
      with m' l show ?thesis
        unfolding quoted_at_def by auto
    qed
    note F = find_quoted_first [of rest]
    show ?thesis
    proof (cases "find_quoted rest")
      case None
      with fss have "FindStringSubmatch s = []" by simp
      moreover have "\<not> Contains m' ''raysubmit''" if "quoted_at s j m'" for j m'
        using unshift [OF that] F None by blast
      ultimately show ?thesis by simp
    next
      case (Some m)
      with fss have m: "FindStringSubmatch s = [squote # m @ [squote], m]" by simp
      from F Some have "\<exists>i. quoted_at (squote # rest) i m \<and> Contains m ''raysubmit''
           \<and> (\<forall>j m'. quoted_at (squote # rest) j m' \<and> Contains m' ''raysubmit'' \<longrightarrow> i \<le> j)"
        by blast
      then obtain i where i: "quoted_at (squote # rest) i m" "Contains m ''raysubmit''"
        "\<forall>j m'. quoted_at (squote # rest) j m' \<and> Contains m' ''raysubmit'' \<longrightarrow> i \<le> j"
        by blast
      have "\<forall>j m'. quoted_at s j m' \<and> Contains m' ''raysubmit'' \<longrightarrow> length ?seg + i \<le> j"
        using unshift i(3) by fastforce
      with shift [OF i(1)] i(2) m show ?thesis by auto
    qed
  qed
qed


lemma store_seen_fields [simp]:
  "receiving (store_seen c) = receiving c"
  "delivered (store_seen c) = delivered c"
  by (simp_all add: store_seen_def split: option.splits)

lemma store_seen_idle: "pendingStore c = None \<Longrightarrow> store_seen c = c"
  by (simp add: store_seen_def)

lemma echo_fields [simp]:
  "receiving (echo t c) = receiving c"
  "delivered (echo t c) = delivered c"
  "rayJobID (echo t c) = rayJobID c"
  "pendingStore (echo t c) = pendingStore c"
  by (simp_all add: echo_def)

lemma scanner_after_receive:
  "\<not> receiving c \<Longrightarrow> delivered (stdout_scanner seen k tokens c) = delivered c"
proof (induction tokens arbitrary: c k)
  case Nil
  then show ?case by simp
next
  case (Cons t tokens)
  let ?c = "if seen k then store_seen c else c"
  have r: "\<not> receiving ?c" and d: "delivered ?c = delivered c"
    using Cons.prems by simp_all
  have "delivered (stdout_scanner seen (Suc k) tokens (echo t ?c)) = delivered c"
    using Cons.IH [of "echo t ?c" "Suc k"] r d by simp
  with r d show ?case
    by (simp add: Let_def)
qed

lemma scanner_while_receiving:
  assumes "receiving c" and "rayJobID c = []" and "pendingStore c = None"
  shows "delivered (stdout_scanner seen k tokens c) =
           delivered c @ (case find (\<lambda>t. 1 < length (FindStringSubmatch t)) tokens of
                            None \<Rightarrow> []
                          | Some t \<Rightarrow> [FindStringSubmatch t ! 1])"
  using assms
proof (induction tokens arbitrary: c k)
  case Nil
  then show ?case by simp
next
  case (Cons t tokens)
  have c: "(if seen k then store_seen c else c) = c"
    using Cons.prems(3) by (simp add: store_seen_idle)
  show ?case
  proof (cases "1 < length (FindStringSubmatch t)")
    case True
    then have t: "t \<noteq> [] \<and> Contains t ''raysubmit''"
      by (rule FindStringSubmatch_Contains)
    let ?c' = "echo t (c\<lparr>delivered := delivered c @ [FindStringSubmatch t ! 1],
                         receiving := False,
                         pendingStore := Some (FindStringSubmatch t ! 1)\<rparr>)"
    have "delivered (stdout_scanner seen (Suc k) tokens ?c') = delivered ?c'"
      by (rule scanner_after_receive) simp
    with True t c Cons.prems show ?thesis
      by (simp add: Let_def)
  next
    case False
    have "delivered (stdout_scanner seen (Suc k) tokens (echo t c)) =
           delivered (echo t c) @ (case find (\<lambda>t. 1 < length (FindStringSubmatch t)) tokens of
                            None \<Rightarrow> []
                          | Some t \<Rightarrow> [FindStringSubmatch t ! 1])"
      using Cons.prems by (intro Cons.IH) simp_all
    with False c show ?thesis
      by (simp add: Let_def)
  qed
qed

lemma FindStringSubmatch_Nil [simp]: "FindStringSubmatch [] = []"
  by (simp add: FindStringSubmatch_def)

lemma run_scanner_delivered:
  assumes "submissionID options = []"
  shows "delivered (run_scanner w options) =
           (case find (\<lambda>t. 1 < length (FindStringSubmatch t)) (stdoutTokens w) of
              None \<Rightarrow> []
            | Some t \<Rightarrow> [FindStringSubmatch t ! 1])"
  using assms
        scanner_while_receiving [of "initial_correlator options" "storeSeen w" 0 "[] # stdoutTokens w"]
  by (simp add: run_scanner_def initial_correlator_def)

lemma run_scanner_bypassed:
  assumes "submissionID options \<noteq> []"
  shows "delivered (run_scanner w options) = []"
  using assms
        scanner_after_receive [of "initial_correlator options" "storeSeen w" 0 "[] # stdoutTokens w"]
  by (simp add: run_scanner_def initial_correlator_def)


lemma example_tokens_match:
  "(case find (\<lambda>t. 1 < length (FindStringSubmatch t)) example_tokens of
      None \<Rightarrow> None
    | Some t \<Rightarrow> Some (FindStringSubmatch t ! 1)) = Some ''raysubmit_abc123''"
  by (simp add: example_tokens_def FindStringSubmatch_def find_quoted.simps squote_def)

lemma await_example:
  assumes "submissionID options = []" and "stdoutTokens w = example_tokens"
  shows "await_rayJobID w options = Some ''raysubmit_abc123''"
proof -
  have "delivered (run_scanner w options) =
          (case find (\<lambda>t. 1 < length (FindStringSubmatch t)) example_tokens of
              None \<Rightarrow> []
            | Some t \<Rightarrow> [FindStringSubmatch t ! 1])"
    using run_scanner_delivered [OF assms(1), of w] assms(2) by simp
  with example_tokens_match assms(1) show ?thesis
    by (auto simp: await_rayJobID_def split: option.splits)
qed

lemma Run_example_annotates:
  "Run (example_world\<lparr>storeSeen := seen\<rparr>) (example_options\<lparr>RayJob := Some example_rayjob\<rparr>) =
     Some (None,
       [CreateRayJob example_rayjob,
        Print ''Submitted RayJob rayjob-sample.'',
        GetRayJob ''rayjob-sample'', Sleep (2 * second),
        Print ''Waiting for RayCluster'',
        Print ''Checking Cluster Status for cluster rayjob-sample-raycluster...'',
        Sleep (2 * second), GetRayCluster ''rayjob-sample-raycluster'',
        GetRayHeadSvcName ''rayjob-sample-raycluster'',
        StartPortForward ''service/rayjob-sample-raycluster-head-svc'',
        Print ''Port Forwarding service rayjob-sample-raycluster-head-svc'',
        Print ''Waiting for portforwarding...'',
        Sleep (2 * second), HttpGet ''http://localhost:8265'',
        Print ''Portforwarding started on http://localhost:8265'',
        Print ''Ray command: [ray job submit --address http://localhost:8265 --working-dir /work -- python my_script.py]'',
        Print ''Running ray submit job command...'',
        StartCommand [''ray'', ''job'', ''submit'', ''--address'', ''http://localhost:8265'',
                      ''--working-dir'', ''/work'', ''--'', ''python'', ''my_script.py''],
        GetRayJob ''rayjob-sample'',
        UpdateRayJob
          [(''apiVersion'', IString ''ray.io/v1''), (''kind'', IString ''RayJob''),
           (''metadata'',
            IMap [(''name'', IString ''rayjob-sample''),
                  (''annotations'',
                   IMap [(''ray.io/ray-job-submission-id'', IString ''raysubmit_abc123'')])]),
           (''spec'', IMap [(''submissionMode'', IString ''InteractiveMode'')]),
           (''status'', IMap [(''rayClusterName'', IString ''rayjob-sample-raycluster'')])],
        WaitCommand, CancelPortForward])"
proof -
  show ?thesis
    by (simp add: Run_def Run_cluster_def Run_forwarded_def Run_submit_def
        await_example Split_loop.simps
        world_eval status_loop.simps cluster_loop.simps portforward_loop.simps
        isRayClusterReady_def raySubmitCmd_def append_when_def shlex_Split_def
        spaceRune_def squote_def dquote_def backslash_def newline_def
        GetName_def GetAnnotations_def SetAnnotations_def submissionIdAnnotation_def
        dashboardAddr_def map_index_def Let_def second_def clusterTimeout_def
        portforwardtimeout_def)
qed


text \<open>
  C1. In a run with no submission ID supplied, whatever the moment at which the
  scanner sees the store of the main flow: at most one identifier passes through the
  channel; it is the submatch of the earliest line of output on which the regular
  expression matches, and it is the identifier the main flow goes on with. The
  expression matches a line when the line has a single-quoted substring holding
  \<^verbatim>\<open>raysubmit\<close>, and its submatch is the first such substring. On the three lines of
  the example Run annotates the RayJob with \<^verbatim>\<open>raysubmit_abc123\<close>.
\<close>

theorem job_id_first_match_wins:
  assumes "submissionID options = []"
  shows "length (delivered (run_scanner w options)) \<le> 1
   \<and> delivered (run_scanner w options) =
       (case find (\<lambda>t. 1 < length (FindStringSubmatch t)) (stdoutTokens w) of
          None \<Rightarrow> []
        | Some t \<Rightarrow> [FindStringSubmatch t ! 1])
   \<and> await_rayJobID w options =
       (case find (\<lambda>t. 1 < length (FindStringSubmatch t)) (stdoutTokens w) of
          None \<Rightarrow> None
        | Some t \<Rightarrow> Some (FindStringSubmatch t ! 1))
   \<and> (1 < length (FindStringSubmatch line) \<longrightarrow>
        (\<exists>i. quoted_at line i (FindStringSubmatch line ! 1)
             \<and> Contains (FindStringSubmatch line ! 1) ''raysubmit''
             \<and> (\<forall>j m. quoted_at line j m \<and> Contains m ''raysubmit'' \<longrightarrow> i \<le> j)))
   \<and> (\<not> 1 < length (FindStringSubmatch line) \<longrightarrow>
        (\<forall>j m. quoted_at line j m \<longrightarrow> \<not> Contains m ''raysubmit''))
   \<and> Run (example_world\<lparr>storeSeen := seen\<rparr>) (example_options\<lparr>RayJob := Some example_rayjob\<rparr>) =
       Some (None,
         [CreateRayJob example_rayjob,
          Print ''Submitted RayJob rayjob-sample.'',
          GetRayJob ''rayjob-sample'', Sleep (2 * second),
          Print ''Waiting for RayCluster'',
          Print ''Checking Cluster Status for cluster rayjob-sample-raycluster...'',
          Sleep (2 * second), GetRayCluster ''rayjob-sample-raycluster'',
          GetRayHeadSvcName ''rayjob-sample-raycluster'',
          StartPortForward ''service/rayjob-sample-raycluster-head-svc'',
          Print ''Port Forwarding service rayjob-sample-raycluster-head-svc'',
          Print ''Waiting for portforwarding...'',
          Sleep (2 * second), HttpGet ''http://localhost:8265'',
          Print ''Portforwarding started on http://localhost:8265'',
          Print ''Ray command: [ray job submit --address http://localhost:8265 --working-dir /work -- python my_script.py]'',
          Print ''Running ray submit job command...'',
          StartCommand [''ray'', ''job'', ''submit'', ''--address'', ''http://localhost:8265'',
                        ''--working-dir'', ''/work'', ''--'', ''python'', ''my_script.py''],
          GetRayJob ''rayjob-sample'',
          UpdateRayJob
            [(''apiVersion'', IString ''ray.io/v1''), (''kind'', IString ''RayJob''),
             (''metadata'',
              IMap [(''name'', IString ''rayjob-sample''),
                    (''annotations'',
                     IMap [(''ray.io/ray-job-submission-id'', IString ''raysubmit_abc123'')])]),
             (''spec'', IMap [(''submissionMode'', IString ''InteractiveMode'')]),
             (''status'', IMap [(''rayClusterName'', IString ''rayjob-sample-raycluster'')])],
          WaitCommand, CancelPortForward])"
proof -
  let ?first = "find (\<lambda>t. 1 < length (FindStringSubmatch t)) (stdoutTokens w)"
  have d: "delivered (run_scanner w options) =
             (case ?first of None \<Rightarrow> [] | Some t \<Rightarrow> [FindStringSubmatch t ! 1])"
    using assms by (rule run_scanner_delivered)
  then have l: "length (delivered (run_scanner w options)) \<le> 1"
    by (simp split: option.splits)
  from d assms have a: "await_rayJobID w options =
             (case ?first of None \<Rightarrow> None | Some t \<Rightarrow> Some (FindStringSubmatch t ! 1))"
    by (simp add: await_rayJobID_def split: option.splits)
  note f = FindStringSubmatch_first [of line]
  show ?thesis
    by (intro conjI) (rule l, rule d, rule a, rule conjunct1 [OF f], rule conjunct2 [OF f],
        rule Run_example_annotates)
qed

theorem job_id_first_match_wins_witness:
  "submissionID example_options = []
   \<and> stdoutTokens example_world = example_tokens
   \<and> delivered (run_scanner example_world example_options) = [''raysubmit_abc123'']
   \<and> await_rayJobID example_world example_options = Some ''raysubmit_abc123''"
proof -
  have h: "submissionID example_options = []"
    by (simp add: example_options_def)
  have t: "stdoutTokens example_world = example_tokens"
    by (simp add: example_world_def)
  have m: "find (\<lambda>t. 1 < length (FindStringSubmatch t)) example_tokens
             = Some (''Job '' @ [squote] @ ''raysubmit_abc123'' @ [squote] @ '' submitted'')"
    by (simp add: example_tokens_def FindStringSubmatch_def find_quoted.simps squote_def)
  have s: "FindStringSubmatch (''Job '' @ [squote] @ ''raysubmit_abc123'' @ [squote] @ '' submitted'') ! 1
             = ''raysubmit_abc123''"
    by (simp add: FindStringSubmatch_def find_quoted.simps squote_def)
  from job_id_first_match_wins [OF h, of example_world]
  have "delivered (run_scanner example_world example_options) =
          (case find (\<lambda>t. 1 < length (FindStringSubmatch t)) (stdoutTokens example_world) of
             None \<Rightarrow> []
           | Some t \<Rightarrow> [FindStringSubmatch t ! 1])
        \<and> await_rayJobID example_world example_options =
          (case find (\<lambda>t. 1 < length (FindStringSubmatch t)) (stdoutTokens example_world) of
             None \<Rightarrow> None
           | Some t \<Rightarrow> Some (FindStringSubmatch t ! 1))"
    by blast
  with h t m s show ?thesis by simp
qed

end
